theory Spec2Isabelle
  imports Complex_Main "HOL-Library.Word"
begin

section \<open>Numbers, buffers, errors and log records\<close>

text \<open>
  Python and numpy floats are modelled as exact real numbers: rounding, overflow and
  infinities are outside the model. The one special value the program can produce by
  itself from finite inputs, numpy's \<open>nan\<close> (the result of a reduction over an empty
  array, or of \<open>0/0\<close> inside \<open>np.corrcoef\<close>), is kept as the constructor \<open>NaN\<close>.
  Arithmetic propagates it and every comparison with it is false, as in IEEE 754.
  A division by exactly zero, which numpy answers with \<open>nan\<close> or an infinity, is
  \<open>NaN\<close> here. Apart from the \<open>0/0\<close> of \<open>np.corrcoef\<close>, the divisors of the program
  are of the form \<open>x + 1e-12\<close> and vanish only for \<open>x = -1e-12\<close>, a value that neither
  \<open>np.std\<close> nor a power spectrum takes.
\<close>

datatype npfloat = Fin real | NaN

fun fl2 :: "(real \<Rightarrow> real \<Rightarrow> real) \<Rightarrow> npfloat \<Rightarrow> npfloat \<Rightarrow> npfloat" where
  "fl2 f (Fin a) (Fin b) = Fin (f a b)"
| "fl2 f _ _ = NaN"

definition fadd :: "npfloat \<Rightarrow> npfloat \<Rightarrow> npfloat" where
  "fadd = fl2 (+)"

definition fsub :: "npfloat \<Rightarrow> npfloat \<Rightarrow> npfloat" where
  "fsub = fl2 (-)"

definition fmul :: "npfloat \<Rightarrow> npfloat \<Rightarrow> npfloat" where
  "fmul = fl2 (*)"

fun fdiv :: "npfloat \<Rightarrow> npfloat \<Rightarrow> npfloat" where
  "fdiv (Fin a) (Fin b) = (if b = 0 then NaN else Fin (a / b))"
| "fdiv _ _ = NaN"

fun fgt :: "npfloat \<Rightarrow> npfloat \<Rightarrow> bool" where
  "fgt (Fin a) (Fin b) = (a > b)"
| "fgt _ _ = False"

fun flt :: "npfloat \<Rightarrow> npfloat \<Rightarrow> bool" where
  "flt (Fin a) (Fin b) = (a < b)"
| "flt _ _ = False"

fun isnan :: "npfloat \<Rightarrow> bool" where
  "isnan NaN = True"
| "isnan (Fin _) = False"

text \<open>
  A sample buffer is a numpy array; the code looks only at whether its dtype is
  \<open>int8\<close> (interleaved I/Q bytes) or something else, which it takes to be complex.
\<close>

type_synonym int8 = "8 word"

datatype iq_buffer = Int8 "int8 list" | Cplx "complex list"

datatype error = ValueError string | RuntimeError string | ZeroDivisionError string

datatype level = INFO | WARNING | ERROR

text \<open>
  A log record is its level and its message. The message is the text of the source's
  f-string with its placeholders left as written; the numbers that go into the
  placeholders are kept beside the text instead of being rendered. Exception messages
  are kept in the same way, without the numbers.
\<close>

type_synonym log_entry = "level \<times> string \<times> npfloat list"

section \<open>numpy on one-dimensional arrays\<close>

text \<open>The slices \<open>a[0::2]\<close> and \<open>a[1::2]\<close>.\<close>

fun evens :: "'a list \<Rightarrow> 'a list" where
  "evens [] = []"
| "evens [x] = [x]"
| "evens (x # y # r) = x # evens r"

fun odds :: "'a list \<Rightarrow> 'a list" where
  "odds [] = []"
| "odds [x] = []"
| "odds (x # y # r) = y # odds r"

text \<open>
  \<open>i + 1j * q\<close> on two real arrays. Equal lengths add element by element; numpy
  broadcasts an array of length 1 against the other one; any other pair of lengths
  raises \<open>ValueError\<close>. A buffer of odd length gives an \<open>i\<close> one longer than \<open>q\<close>.
\<close>

definition np_add_iq :: "real list \<Rightarrow> real list \<Rightarrow> error + complex list" where
  "np_add_iq is qs =
     (if length is = length qs then Inr (map (\<lambda>(a, b). Complex a b) (zip is qs))
      else (case (is, qs) of
              (_, [b]) \<Rightarrow> Inr (map (\<lambda>a. Complex a b) is)
            | ([a], _) \<Rightarrow> Inr (map (\<lambda>b. Complex a b) qs)
            | _ \<Rightarrow> Inl (ValueError ''operands could not be broadcast together'')))"

text \<open>\<open>np.mean\<close> and \<open>np.std\<close> (population standard deviation); \<open>nan\<close> on an empty array.\<close>

definition mean :: "real list \<Rightarrow> real" where
  "mean xs = sum_list xs / real (length xs)"

definition np_mean :: "real list \<Rightarrow> npfloat" where
  "np_mean xs = (if xs = [] then NaN else Fin (mean xs))"

definition np_std :: "real list \<Rightarrow> npfloat" where
  "np_std xs =
     (if xs = [] then NaN
      else Fin (sqrt (mean (map (\<lambda>x. (x - mean xs)\<^sup>2) xs))))"




text \<open>\<open>np.argmax\<close>: the first index of the maximum; \<open>ValueError\<close> on an empty array.\<close>

fun argmax_from :: "nat \<Rightarrow> real \<Rightarrow> nat \<Rightarrow> real list \<Rightarrow> nat" where
  "argmax_from best bv i [] = best"
| "argmax_from best bv i (x # xs) =
     (if x > bv then argmax_from i x (Suc i) xs else argmax_from best bv (Suc i) xs)"

definition np_argmax :: "real list \<Rightarrow> error + nat" where
  "np_argmax xs =
     (case xs of
        [] \<Rightarrow> Inl (ValueError ''attempt to get argmax of an empty sequence'')
      | x # r \<Rightarrow> Inr (argmax_from 0 x 1 r))"

text \<open>
  \<open>np.percentile\<close> with its default linear interpolation between the two order
  statistics around the position \<open>(n - 1) * q / 100\<close>; \<open>nan\<close> on an empty array.
\<close>

definition np_percentile :: "real list \<Rightarrow> real \<Rightarrow> npfloat" where
  "np_percentile xs q =
     (if xs = [] then NaN
      else (let s = sort xs;
                n = length xs;
                h = real (n - 1) * (q / 100);
                lo = nat \<lfloor>h\<rfloor>;
                hi = min (lo + 1) (n - 1)
            in Fin (s ! lo + (h - real lo) * (s ! hi - s ! lo))))"

text \<open>
  \<open>np.fft.fftfreq(n, d)\<close>: the integers \<open>0 .. (n-1) div 2\<close> followed by
  \<open>-(n div 2) .. -1\<close>, each times \<open>1 / (n * d)\<close>.
\<close>

definition fftfreq :: "nat \<Rightarrow> real \<Rightarrow> real list" where
  "fftfreq n d =
     map (\<lambda>k. real_of_int k * (1 / (real n * d)))
         (map int [0 ..< (n - 1) div 2 + 1] @ map (\<lambda>k. int k - int (n div 2)) [0 ..< n div 2])"

fun np_log10 :: "npfloat \<Rightarrow> npfloat" where
  "np_log10 (Fin x) = (if x > 0 then Fin (log 10 x) else NaN)"
| "np_log10 NaN = NaN"

text \<open>
  \<open>np.corrcoef(x, y)[0, 1]\<close> for two arrays of one length \<open>n\<close>: the covariance
  matrix with divisor \<open>n - 1\<close>, its off-diagonal entry divided by the square roots of the
  two diagonal entries. Fewer than two points, or a zero on the diagonal, give \<open>nan\<close>.
  (numpy afterwards clips to \<open>[-1, 1]\<close>, which only undoes rounding.)
\<close>

definition np_corrcoef01 :: "real list \<Rightarrow> real list \<Rightarrow> npfloat" where
  "np_corrcoef01 xs ys =
     (let n = length xs in
      if n \<le> 1 then NaN
      else (let fact = real n - 1;
                dx = map (\<lambda>x. x - mean xs) xs;
                dy = map (\<lambda>y. y - mean ys) ys;
                cxx = (\<Sum>a\<leftarrow>dx. a * a) / fact;
                cyy = (\<Sum>b\<leftarrow>dy. b * b) / fact;
                cxy = (\<Sum>(a, b)\<leftarrow>zip dx dy. a * b) / fact
            in fdiv (fdiv (Fin cxy) (Fin (sqrt cxx))) (Fin (sqrt cyy))))"

section \<open>\<open>response_analyzer.py\<close>\<close>

datatype snr = NegInf | Db npfloat

record ResponseMetrics =
  probe_id :: int
  power_mean :: npfloat
  power_std :: npfloat
  snr_db :: snr
  anomaly_score :: npfloat
  correlation :: npfloat
  peak_freq :: "real option"
  peak_power :: real
  is_anomaly :: bool
  raw_iq :: "iq_buffer option"

record ResponseAnalyzer =
  sr :: int
  anomaly_threshold :: real
  baseline_mean :: "npfloat option"
  baseline_std :: "npfloat option"
  logger :: "log_entry list"

definition ResponseAnalyzer_init ::
  "int \<Rightarrow> real \<Rightarrow> npfloat option \<Rightarrow> npfloat option \<Rightarrow> ResponseAnalyzer" where
  "ResponseAnalyzer_init rate threshold bmean bstd =
     \<lparr>sr = rate, anomaly_threshold = threshold,
      baseline_mean = bmean, baseline_std = bstd, logger = []\<rparr>"

definition log_to ::
  "ResponseAnalyzer \<Rightarrow> level \<Rightarrow> string \<Rightarrow> npfloat list \<Rightarrow> ResponseAnalyzer" where
  "log_to az lv msg args = az\<lparr>logger := logger az @ [(lv, msg, args)]\<rparr>"

text \<open>
  \<open>scipy.signal.welch\<close> is a library routine outside the repository. It is a parameter
  of the model: a function of the complex signal, the sampling frequency and the segment
  length that returns the power spectral density, or raises.
\<close>

type_synonym welch_fn = "complex list \<Rightarrow> int \<Rightarrow> nat \<Rightarrow> error + real list"

text \<open>
  The docstrings describe an int8 buffer as interleaved I/Q samples: one in-phase and
  one quadrature byte per sample, hence an even number of bytes.
\<close>

definition interleaved :: "iq_buffer \<Rightarrow> bool" where
  "interleaved buf = (case buf of Int8 bs \<Rightarrow> even (length bs) | Cplx cs \<Rightarrow> True)"

text \<open>The int8 branch of \<open>_compute_power_spectrum\<close> scales by 127 before pairing.\<close>

definition to_complex_scaled :: "iq_buffer \<Rightarrow> error + complex list" where
  "to_complex_scaled buf =
     (case buf of
        Int8 bs \<Rightarrow> np_add_iq (map (\<lambda>b. real_of_int (sint b) / 127) (evens bs))
                             (map (\<lambda>b. real_of_int (sint b) / 127) (odds bs))
      | Cplx cs \<Rightarrow> Inr cs)"

definition compute_power_spectrum ::
  "welch_fn \<Rightarrow> ResponseAnalyzer \<Rightarrow> iq_buffer \<Rightarrow> error + real list" where
  "compute_power_spectrum welch az iq_samples =
     (case to_complex_scaled iq_samples of
        Inl e \<Rightarrow> Inl e
      | Inr complex_signal \<Rightarrow>
          welch complex_signal (sr az) (min 1024 (length complex_signal)))"

text \<open>
  \<open>_find_peak\<close>. \<open>np.argmax\<close> raises on an empty spectrum, and \<open>1 / self.sr\<close> raises
  when the sample rate is 0.
\<close>

definition find_peak :: "ResponseAnalyzer \<Rightarrow> real list \<Rightarrow> error + (real option \<times> real)" where
  "find_peak az psd =
     (case np_argmax psd of
        Inl e \<Rightarrow> Inl e
      | Inr peak_idx \<Rightarrow>
          (let peak_pow = psd ! peak_idx;
               n_freqs = length psd
           in if sr az = 0 then Inl (ZeroDivisionError ''division by zero'')
              else (let freq_bins = take n_freqs (fftfreq (n_freqs * 2) (1 / real_of_int (sr az)));
                        peak_f = (if peak_idx < length freq_bins
                                  then Some (freq_bins ! peak_idx) else None)
                    in Inr (peak_f, peak_pow))))"

text \<open>\<open>_compute_correlation\<close>. Its int8 branch pairs the raw byte values, unscaled.\<close>

definition to_complex_raw :: "iq_buffer \<Rightarrow> error + complex list" where
  "to_complex_raw buf =
     (case buf of
        Int8 bs \<Rightarrow> np_add_iq (map (\<lambda>b. real_of_int (sint b)) (evens bs))
                             (map (\<lambda>b. real_of_int (sint b)) (odds bs))
      | Cplx cs \<Rightarrow> Inr cs)"

definition compute_correlation :: "iq_buffer \<Rightarrow> iq_buffer \<Rightarrow> error + npfloat" where
  "compute_correlation response_iq probe_iq =
     (case to_complex_raw response_iq of
        Inl e \<Rightarrow> Inl e
      | Inr response_complex \<Rightarrow>
     (case to_complex_raw probe_iq of
        Inl e \<Rightarrow> Inl e
      | Inr probe_complex \<Rightarrow>
          (let min_len = min (length response_complex) (length probe_complex);
               response_mag = map cmod (take min_len response_complex);
               probe_mag = map cmod (take min_len probe_complex)
           in if flt (np_std response_mag) (Fin (1 / 10 ^ 12))
                 \<or> flt (np_std probe_mag) (Fin (1 / 10 ^ 12))
              then Inr (Fin 0)
              else (let c = np_corrcoef01 response_mag probe_mag
                    in Inr (if \<not> isnan c then c else Fin 0)))))"

text \<open>
  The Pearson correlation coefficient of two sequences as the textbooks define it, for
  comparison with what \<open>_compute_correlation\<close> computes: the sum of the products of
  the deviations from the two means, over the product of the square roots of the two
  sums of squared deviations.
\<close>

definition pearson_spec :: "real list \<Rightarrow> real list \<Rightarrow> real" where
  "pearson_spec xs ys =
     (\<Sum>(x, y)\<leftarrow>zip xs ys. (x - mean xs) * (y - mean ys))
       / (sqrt (\<Sum>x\<leftarrow>xs. (x - mean xs)\<^sup>2) * sqrt (\<Sum>y\<leftarrow>ys. (y - mean ys)\<^sup>2))"

text \<open>
  \<open>analyze\<close>. The analyzer comes back beside the result, with whatever was logged; an
  exception raised after the warning of the no-baseline branch leaves that warning in
  the log.
\<close>

definition analyze ::
  "welch_fn \<Rightarrow> ResponseAnalyzer \<Rightarrow> int \<Rightarrow> iq_buffer \<Rightarrow> iq_buffer option \<Rightarrow> bool
     \<Rightarrow> (error + ResponseMetrics) \<times> ResponseAnalyzer" where
  "analyze welch az pid response_iq probe_iq save_raw =
     (case compute_power_spectrum welch az response_iq of
        Inl e \<Rightarrow> (Inl e, az)
      | Inr psd \<Rightarrow>
     (let p_mean = np_mean psd;
          p_std = np_std psd
      in case find_peak az psd of
        Inl e \<Rightarrow> (Inl e, az)
      | Inr (peak_f, peak_pow) \<Rightarrow>
     (let noise_floor = np_percentile psd 25;
          snr_linear = fdiv (Fin peak_pow) (fadd noise_floor (Fin (1 / 10 ^ 12)));
          snr = (if fgt snr_linear (Fin 0) then Db (fmul (Fin 10) (np_log10 snr_linear))
                 else NegInf);
          (score, anomalous, az') =
             (case (baseline_mean az, baseline_std az) of
                (Some bmean, Some bstd) \<Rightarrow>
                  (let sc = fdiv (fsub p_mean bmean) (fadd bstd (Fin (1 / 10 ^ 12)))
                   in (sc, fgt sc (Fin (anomaly_threshold az)), az))
              | _ \<Rightarrow> (Fin 0, False,
                       log_to az WARNING ''No baseline set. Anomaly detection disabled.'' []))
      in case (case probe_iq of
                 None \<Rightarrow> Inr (Fin 0)
               | Some p \<Rightarrow> compute_correlation response_iq p) of
        Inl e \<Rightarrow> (Inl e, az')
      | Inr corr \<Rightarrow>
          (Inr \<lparr>probe_id = pid, power_mean = p_mean, power_std = p_std, snr_db = snr,
                anomaly_score = score, correlation = corr, peak_freq = peak_f,
                peak_power = peak_pow, is_anomaly = anomalous,
                raw_iq = (if save_raw then Some response_iq else None)\<rparr>,
           az'))))"



text \<open>
  \<open>compute_llr_from_metrics\<close>: the early return when a baseline component is \<open>None\<close>,
  then the arithmetic of the source line by line. The analyzer is returned as well,
  because the early return writes a warning to its logger.
\<close>

definition compute_llr_from_metrics ::
  "ResponseAnalyzer \<Rightarrow> ResponseMetrics \<Rightarrow> npfloat \<times> ResponseAnalyzer" where
  "compute_llr_from_metrics az metrics =
     (case (baseline_mean az, baseline_std az) of
        (Some bmean, Some bstd) \<Rightarrow>
          (let y = power_mean metrics;
               h1_mean = fadd bmean (fmul (Fin (anomaly_threshold az)) bstd);
               variance = fmul bstd bstd;
               mu_diff = fsub h1_mean bmean;
               llr = fdiv (fsub (fmul y mu_diff) (fmul (Fin (1/2)) (fmul mu_diff mu_diff)))
                          (fadd variance (Fin (1 / 10 ^ 12)))
           in (llr, az))
      | _ \<Rightarrow> (Fin 0, log_to az WARNING ''No baseline. LLR set to 0.'' []))"

section \<open>\<open>config.py\<close>\<close>

record APDConfig =
  sprt_alpha :: real
  sprt_beta :: real
  max_iterations :: int
  probe_duration :: real
  listen_duration :: real
  inter_probe_delay :: real
  carrier_freq :: real
  sample_rate :: int
  tx_gain :: int
  rx_gain :: int
  bandwidth :: int
  center_freq_offset :: real
  anomaly_threshold_sigma :: real
  baseline_samples :: int
  noise_floor_percentile :: real
  log_dir :: string
  temp_dir :: string
  probe_library_seed :: "int option"
  probe_types :: "string list"
  legal_check :: bool
  require_ham_license_confirm :: bool

text \<open>
  The field defaults of the dataclass. \<open>HYDROGEN_LINE_HZ\<close>, \<open>RF_SAMPLE_RATE\<close> and
  \<open>RF_DEFAULT_GAIN\<close> come from \<open>hlb.constants\<close>, which is not among the sources; they
  are parameters here.
\<close>

definition APDConfig_default :: "real \<Rightarrow> int \<Rightarrow> int \<Rightarrow> APDConfig" where
  "APDConfig_default hydrogen_line_hz rf_sample_rate rf_default_gain =
     \<lparr>sprt_alpha = 1/100, sprt_beta = 1/100, max_iterations = 100,
      probe_duration = 5, listen_duration = 15, inter_probe_delay = 10,
      carrier_freq = hydrogen_line_hz, sample_rate = rf_sample_rate,
      tx_gain = rf_default_gain, rx_gain = 40, bandwidth = 2000000,
      center_freq_offset = 0, anomaly_threshold_sigma = 3, baseline_samples = 5,
      noise_floor_percentile = 25, log_dir = ''./apd_logs'', temp_dir = ''/tmp/apd_active'',
      probe_library_seed = None,
      probe_types = [''hydrogen_pulse'', ''schumann_am'', ''frequency_sweep'',
                     ''prime_sequence'', ''fibonacci_sequence'', ''silence''],
      legal_check = True, require_ham_license_confirm = True\<rparr>"

text \<open>
  \<open>validate\<close>: the checks in the order of the source, each raising at once. The
  first component is what is printed to standard output (the three lines before the
  \<open>RuntimeError\<close>, without the two non-ASCII signs of the source: the warning sign
  and the pound sign).
\<close>

definition validate :: "real \<Rightarrow> APDConfig \<Rightarrow> string list \<times> (error + unit)" where
  "validate hydrogen_line_hz c =
     (if \<not> (0 < sprt_alpha c \<and> sprt_alpha c < 1)
        then ([], Inl (ValueError ''sprt_alpha must be in (0,1), got {self.sprt_alpha}''))
      else if \<not> (0 < sprt_beta c \<and> sprt_beta c < 1)
        then ([], Inl (ValueError ''sprt_beta must be in (0,1), got {self.sprt_beta}''))
      else if max_iterations c < 1
        then ([], Inl (ValueError ''max_iterations must be positive, got {self.max_iterations}''))
      else if probe_duration c \<le> 0
        then ([], Inl (ValueError ''probe_duration must be positive, got {self.probe_duration}''))
      else if listen_duration c \<le> 0
        then ([], Inl (ValueError ''listen_duration must be positive, got {self.listen_duration}''))
      else if legal_check c \<and> \<bar>carrier_freq c - hydrogen_line_hz\<bar> < 1000000
        then (if require_ham_license_confirm c
              then ([''  WARNING: Operating on 1420 MHz hydrogen line requires amateur radio licence.'',
                     ''   UK: Foundation licence minimum (one-day course, ~50)'',
                     ''   Set require_ham_license_confirm=False to suppress this check.''],
                    Inl (RuntimeError
                      ''Unlicensed transmission on 1420 MHz is illegal in most jurisdictions.''))
              else ([], Inr ()))
      else ([], Inr ()))"

section \<open>\<open>active_beacon.py\<close>: capturing the baseline\<close>





section \<open>\<open>probe_library.py\<close>\<close>

datatype ProbeType =
    HYDROGEN_PULSE | SCHUMANN_AM | FREQUENCY_SWEEP | PRIME_SEQUENCE | FIBONACCI_SEQUENCE
  | GOLDEN_RATIO | CHIRP_UP | CHIRP_DOWN | SILENCE | CUSTOM

text \<open>The values a \<open>parameters\<close> dictionary holds, and the dictionary in the order it is written.\<close>

datatype pval =
    PBool bool | PInt int | PNum real | PStr string | PInts "int list"
  | PWeights "(int \<times> real) list" | PFn "real \<Rightarrow> int \<Rightarrow> real list \<times> real list"

type_synonym params = "(string \<times> pval) list"

record Probe =
  ptype :: ProbeType
  parameters :: params
  description :: string
  kl_score :: real

text \<open>
  The nine bound methods that \<open>__init__\<close> puts into \<open>_probe_generators\<close>, and the
  dictionary itself. \<open>CUSTOM\<close> is not a key.
\<close>

datatype generator =
    gen_hydrogen_pulse | gen_schumann_am | gen_frequency_sweep | gen_prime_sequence
  | gen_fibonacci_sequence | gen_golden_ratio | gen_chirp_up | gen_chirp_down | gen_silence

definition probe_generators :: "ProbeType \<Rightarrow> generator option" where
  "probe_generators =
     [HYDROGEN_PULSE \<mapsto> gen_hydrogen_pulse,
      SCHUMANN_AM \<mapsto> gen_schumann_am,
      FREQUENCY_SWEEP \<mapsto> gen_frequency_sweep,
      PRIME_SEQUENCE \<mapsto> gen_prime_sequence,
      FIBONACCI_SEQUENCE \<mapsto> gen_fibonacci_sequence,
      GOLDEN_RATIO \<mapsto> gen_golden_ratio,
      CHIRP_UP \<mapsto> gen_chirp_up,
      CHIRP_DOWN \<mapsto> gen_chirp_down,
      SILENCE \<mapsto> gen_silence]"

text \<open>
  \<open>get_standard_library\<close>. \<open>PRIMES\<close> is a constant of \<open>hlb.constants\<close>, not among the
  sources, and a parameter here. The field \<open>type\<close> of the dataclass is \<open>ptype\<close>; in
  the descriptions the Greek letter is written \<open>phi\<close> and the arrow \<open>->\<close>.
\<close>

definition get_standard_library :: "int list \<Rightarrow> Probe list" where
  "get_standard_library primes =
     [\<lparr>ptype = HYDROGEN_PULSE,
       parameters = [(''pulsed'', PBool True), (''duty_cycle'', PNum (1/2))],
       description = ''Pulsed carrier on hydrogen line (1420.405 MHz)'', kl_score = 5/2\<rparr>,
      \<lparr>ptype = SCHUMANN_AM,
       parameters = [(''mode_weights'', PWeights [(1, 1), (2, 7/10), (3, 1/2)])],
       description = ''AM modulated by Schumann resonances (7.83 Hz fundamental)'',
       kl_score = 3\<rparr>,
      \<lparr>ptype = FREQUENCY_SWEEP,
       parameters = [(''f_start'', PInt 1000), (''f_end'', PInt 10000),
                     (''sweep_type'', PStr ''linear'')],
       description = ''Linear frequency sweep 1-10 kHz baseband'', kl_score = 2\<rparr>,
      \<lparr>ptype = PRIME_SEQUENCE,
       parameters = [(''primes'', PInts (take 10 primes))],
       description = ''Prime number pulse intervals (2, 3, 5, 7...)'', kl_score = 14/5\<rparr>,
      \<lparr>ptype = FIBONACCI_SEQUENCE,
       parameters = [(''length'', PInt 10)],
       description = ''Fibonacci sequence pulse intervals'', kl_score = 13/5\<rparr>,
      \<lparr>ptype = GOLDEN_RATIO,
       parameters = [(''phi_periods'', PInt 5)],
       description = ''Golden ratio (phi) modulated carrier'', kl_score = 12/5\<rparr>,
      \<lparr>ptype = CHIRP_UP,
       parameters = [(''f_start'', PInt 500), (''f_end'', PInt 5000)],
       description = ''Upward chirp 500 Hz -> 5 kHz'', kl_score = 9/5\<rparr>,
      \<lparr>ptype = CHIRP_DOWN,
       parameters = [(''f_start'', PInt 5000), (''f_end'', PInt 500)],
       description = ''Downward chirp 5 kHz -> 500 Hz'', kl_score = 9/5\<rparr>,
      \<lparr>ptype = SILENCE,
       parameters = [],
       description = ''Silent probe (control/baseline)'', kl_score = 1/10\<rparr>]"

definition custom_probe ::
  "(real \<Rightarrow> int \<Rightarrow> real list \<times> real list) \<Rightarrow> real \<Rightarrow> string \<Rightarrow> real \<Rightarrow> Probe" where
  "custom_probe waveform_fn duration descr score =
     \<lparr>ptype = CUSTOM,
      parameters = [(''waveform_fn'', PFn waveform_fn), (''duration'', PNum duration)],
      description = descr, kl_score = score\<rparr>"

text \<open>
  Modelled from the spec: \<open>to_iq_int8\<close> belongs to \<open>hlb.waveforms\<close>, which is not among
  the sources. The spec says that every renderer ends by normalising the in-phase and
  the quadrature channel independently when a channel is not already bounded in
  \<open>[-1, 1]\<close>, and by quantising to interleaved 8-bit signed samples in the range
  \<open>[-127, 127]\<close>. The spec does not fix the rounding; to the nearest integer is taken
  here.
\<close>

definition normalise_channel :: "real list \<Rightarrow> real list" where
  "normalise_channel xs =
     (let peak = fold (\<lambda>x m. max \<bar>x\<bar> m) xs 0
      in if peak > 1 then map (\<lambda>x. x / peak) xs else xs)"

definition quantise :: "real \<Rightarrow> int8" where
  "quantise x = word_of_int (round (x * 127))"

definition to_iq_int8 :: "real list \<Rightarrow> real list \<Rightarrow> int8 list" where
  "to_iq_int8 i_signal q_signal =
     concat (map (\<lambda>(a, b). [quantise a, quantise b])
                 (zip (normalise_channel i_signal) (normalise_channel q_signal)))"

text \<open>Python's \<open>int\<close> of a float truncates towards zero; \<open>np.zeros\<close> refuses a negative length.\<close>

definition py_int :: "real \<Rightarrow> int" where
  "py_int x = (if x \<ge> 0 then \<lfloor>x\<rfloor> else \<lceil>x\<rceil>)"

definition np_zeros :: "int \<Rightarrow> error + real list" where
  "np_zeros n =
     (if n < 0 then Inl (ValueError ''negative dimensions are not allowed'')
      else Inr (replicate (nat n) 0))"

definition silence :: "int \<Rightarrow> real \<Rightarrow> params \<Rightarrow> error + int8 list" where
  "silence rate duration ps =
     (let n_samples = py_int (real_of_int rate * duration)
      in case np_zeros n_samples of
           Inl e \<Rightarrow> Inl e
         | Inr z \<Rightarrow> Inr (to_iq_int8 z z))"

text \<open>
  The other eight generators build their waveforms with \<open>hlb.waveforms\<close>
  (\<open>prime_pulse_gate\<close>, \<open>schumann_envelope\<close>, \<open>chirp\<close>, \<open>normalise\<close>), which is not among
  the sources. Their bodies are a parameter \<open>waveforms\<close> of the library: a function
  from the generator, the sample rate, the duration and the parameters to the
  rendered buffer or an error.
\<close>

type_synonym waveform_gens = "generator \<Rightarrow> int \<Rightarrow> real \<Rightarrow> params \<Rightarrow> error + int8 list"

definition run_generator ::
  "waveform_gens \<Rightarrow> int \<Rightarrow> generator \<Rightarrow> real \<Rightarrow> params \<Rightarrow> error + int8 list" where
  "run_generator waveforms rate g duration ps =
     (case g of
        gen_silence \<Rightarrow> silence rate duration ps
      | _ \<Rightarrow> waveforms g rate duration ps)"

definition generate_iq :: "waveform_gens \<Rightarrow> int \<Rightarrow> Probe \<Rightarrow> real \<Rightarrow> error + int8 list" where
  "generate_iq waveforms rate probe duration =
     (case probe_generators (ptype probe) of
        None \<Rightarrow> Inl (ValueError ''Unknown probe type: {probe.type}'')
      | Some g \<Rightarrow> run_generator waveforms rate g duration (parameters probe))"

section \<open>Wald's thresholds\<close>

text \<open>
  Modelled from the spec: the class \<open>WaldSPRT\<close> is imported from the package \<open>apd\<close>,
  which is not among the sources. The spec gives its two decision thresholds as
  \<open>A = ln((1 - beta) / alpha)\<close> and \<open>B = ln(beta / (1 - alpha))\<close>.
\<close>

definition wald_upper :: "real \<Rightarrow> real \<Rightarrow> real" where
  "wald_upper alpha beta = ln ((1 - beta) / alpha)"

definition wald_lower :: "real \<Rightarrow> real \<Rightarrow> real" where
  "wald_lower alpha beta = ln (beta / (1 - alpha))"

section \<open>Properties of the log-likelihood ratio\<close>

lemma llr_finite_baseline:
  "baseline_mean az = Some (Fin m) \<Longrightarrow> baseline_std az = Some (Fin s) \<Longrightarrow>
   power_mean metrics = Fin y \<Longrightarrow>
   fst (compute_llr_from_metrics az metrics) =
     Fin ((y * (m + anomaly_threshold az * s - m)
            - 1/2 * ((m + anomaly_threshold az * s - m) * (m + anomaly_threshold az * s - m)))
          / (s * s + 1 / 10 ^ 12))"
proof -
  have "s * s + 1 / 10 ^ 12 > 0"
    by (rule add_nonneg_pos) simp_all
  then have "s * s + 1 / 10 ^ 12 \<noteq> 0" by simp
  then show "baseline_mean az = Some (Fin m) \<Longrightarrow> baseline_std az = Some (Fin s) \<Longrightarrow>
      power_mean metrics = Fin y \<Longrightarrow> ?thesis"
    by (simp add: compute_llr_from_metrics_def fadd_def fsub_def fmul_def Let_def)
qed

text \<open>
  Claim C1. With baseline mean 1.0, baseline standard deviation 0.1 and threshold 3.0,
  the spec expects a strictly negative LLR for an observation at the baseline mean
  (\<open>power_mean = 1.0\<close>) and a strictly positive one at \<open>power_mean = 1.3\<close>. The code
  multiplies the offset by the raw observation, not by the observation minus the
  baseline mean that its docstring names, so at \<open>power_mean = 1.0\<close> it returns
  \<open>(1.0 * 0.3 - 0.045) / (0.01 + 1e-12)\<close>, which is positive; at 1.3 it is positive too.
\<close>

theorem llr_at_baseline_mean_is_positive:
  "fst (compute_llr_from_metrics
          (az\<lparr>anomaly_threshold := 3, baseline_mean := Some (Fin 1),
               baseline_std := Some (Fin (1/10))\<rparr>)
          (metrics\<lparr>power_mean := Fin 1\<rparr>))
     = Fin (255000000000 / 10000000001)
   \<and> fgt (fst (compute_llr_from_metrics
          (az\<lparr>anomaly_threshold := 3, baseline_mean := Some (Fin 1),
               baseline_std := Some (Fin (1/10))\<rparr>)
          (metrics\<lparr>power_mean := Fin 1\<rparr>))) (Fin 0)
   \<and> fgt (fst (compute_llr_from_metrics
          (az\<lparr>anomaly_threshold := 3, baseline_mean := Some (Fin 1),
               baseline_std := Some (Fin (1/10))\<rparr>)
          (metrics\<lparr>power_mean := Fin (13/10)\<rparr>))) (Fin 0)"
  by (simp add: compute_llr_from_metrics_def fadd_def fsub_def fmul_def Let_def)

text \<open>
  Claim C2. With both baseline components set (to finite values \<open>m\<close> and \<open>s\<close>),
  \<open>compute_llr_from_metrics\<close> returns \<open>(y * Delta - Delta^2 / 2) / (s^2 + 1e-12)\<close> with
  \<open>y\<close> the metrics' \<open>power_mean\<close> and \<open>Delta = anomaly_threshold * s\<close>; when either
  component is \<open>None\<close> it returns 0.
\<close>

theorem compute_llr_closed_form:
  "(baseline_mean az = Some (Fin m) \<and> baseline_std az = Some (Fin s)
      \<and> power_mean metrics = Fin y \<longrightarrow>
      fst (compute_llr_from_metrics az metrics) =
        Fin ((y * (anomaly_threshold az * s)
               - (anomaly_threshold az * s)\<^sup>2 / 2) / (s\<^sup>2 + 1 / 10 ^ 12)))
   \<and> (baseline_mean az = None \<or> baseline_std az = None \<longrightarrow>
      fst (compute_llr_from_metrics az metrics) = Fin 0)"
proof (intro conjI impI)
  assume "baseline_mean az = Some (Fin m) \<and> baseline_std az = Some (Fin s)
      \<and> power_mean metrics = Fin y"
  then show "fst (compute_llr_from_metrics az metrics) =
        Fin ((y * (anomaly_threshold az * s)
               - (anomaly_threshold az * s)\<^sup>2 / 2) / (s\<^sup>2 + 1 / 10 ^ 12))"
    by (simp add: llr_finite_baseline [of az m s metrics y] power2_eq_square)
next
  assume "baseline_mean az = None \<or> baseline_std az = None"
  then show "fst (compute_llr_from_metrics az metrics) = Fin 0"
    by (auto simp: compute_llr_from_metrics_def split: option.splits)
qed

theorem compute_llr_closed_form_witness:
  "fst (compute_llr_from_metrics (ResponseAnalyzer_init 2000000 3 (Some (Fin 1)) (Some (Fin (1/10))))
         \<lparr>probe_id = 0, power_mean = Fin (13/10), power_std = Fin 0, snr_db = NegInf,
          anomaly_score = Fin 3, correlation = Fin 0, peak_freq = None, peak_power = 0,
          is_anomaly = False, raw_iq = None\<rparr>)
     = Fin ((13/10 * (3 * (1/10)) - (3 * (1/10))\<^sup>2 / 2) / ((1/10)\<^sup>2 + 1 / 10 ^ 12))
   \<and> fst (compute_llr_from_metrics (ResponseAnalyzer_init 2000000 3 None None)
         \<lparr>probe_id = 0, power_mean = Fin (13/10), power_std = Fin 0, snr_db = NegInf,
          anomaly_score = Fin 0, correlation = Fin 0, peak_freq = None, peak_power = 0,
          is_anomaly = False, raw_iq = None\<rparr>) = Fin 0"
  using compute_llr_closed_form
          [of "ResponseAnalyzer_init 2000000 3 (Some (Fin 1)) (Some (Fin (1/10)))" 1 "1/10"
              "\<lparr>probe_id = 0, power_mean = Fin (13/10), power_std = Fin 0, snr_db = NegInf,
                anomaly_score = Fin 3, correlation = Fin 0, peak_freq = None, peak_power = 0,
                is_anomaly = False, raw_iq = None\<rparr>" "13/10"]
        compute_llr_closed_form
          [of "ResponseAnalyzer_init 2000000 3 None None" 0 0
              "\<lparr>probe_id = 0, power_mean = Fin (13/10), power_std = Fin 0, snr_db = NegInf,
                anomaly_score = Fin 0, correlation = Fin 0, peak_freq = None, peak_power = 0,
                is_anomaly = False, raw_iq = None\<rparr>" 0]
  by (simp add: ResponseAnalyzer_init_def)

section \<open>Properties of configuration validation\<close>

text \<open>
  Claim C5, as stated: \<open>validate\<close> raises exactly when \<open>sprt_alpha\<close> or \<open>sprt_beta\<close> is
  outside (0,1), \<open>max_iterations < 1\<close>, a duration is not positive, or
  \<open>baseline_samples < 2\<close>. Two configurations contradict it. The defaults have every
  one of these parameters in range and \<open>validate\<close> raises \<open>RuntimeError\<close> (the licence
  gate on a carrier within 1 MHz of the hydrogen line). The defaults moved to the
  433.92 MHz carrier with \<open>baseline_samples = 1\<close> pass validation. (The three
  constants of \<open>hlb.constants\<close> are given values here; only the hydrogen line
  frequency is read by \<open>validate\<close>, and only through its distance to the carrier.)
\<close>

theorem validate_counterexample:
  "\<not> (isl (snd (validate 1420405000 (APDConfig_default 1420405000 2000000 20)))
        \<longleftrightarrow>
        (sprt_alpha (APDConfig_default 1420405000 2000000 20) \<le> 0
         \<or> 1 \<le> sprt_alpha (APDConfig_default 1420405000 2000000 20)
         \<or> sprt_beta (APDConfig_default 1420405000 2000000 20) \<le> 0
         \<or> 1 \<le> sprt_beta (APDConfig_default 1420405000 2000000 20)
         \<or> max_iterations (APDConfig_default 1420405000 2000000 20) < 1
         \<or> probe_duration (APDConfig_default 1420405000 2000000 20) \<le> 0
         \<or> listen_duration (APDConfig_default 1420405000 2000000 20) \<le> 0
         \<or> baseline_samples (APDConfig_default 1420405000 2000000 20) < 2))
   \<and> snd (validate 1420405000
             ((APDConfig_default 1420405000 2000000 20)
                \<lparr>carrier_freq := 433920000, baseline_samples := 1\<rparr>)) = Inr ()
   \<and> baseline_samples ((APDConfig_default 1420405000 2000000 20)
                \<lparr>carrier_freq := 433920000, baseline_samples := 1\<rparr>) < 2"
  by (simp add: validate_def APDConfig_default_def)

text \<open>
  Claim C5, amended: \<open>validate\<close> raises \<open>ValueError\<close> exactly when \<open>sprt_alpha\<close> or
  \<open>sprt_beta\<close> is outside the open interval (0,1), \<open>max_iterations < 1\<close>,
  \<open>probe_duration \<le> 0\<close> or \<open>listen_duration \<le> 0\<close>; with all of these in range it
  raises \<open>RuntimeError\<close> exactly when \<open>legal_check\<close> and \<open>require_ham_license_confirm\<close>
  are set and the carrier is less than 1 MHz from the hydrogen line; in every other
  case it passes. \<open>baseline_samples\<close> is not read by \<open>validate\<close>.
\<close>

theorem validate_raises_iff:
  "((\<exists>msg. snd (validate h c) = Inl (ValueError msg)) \<longleftrightarrow>
       (sprt_alpha c \<le> 0 \<or> 1 \<le> sprt_alpha c \<or> sprt_beta c \<le> 0 \<or> 1 \<le> sprt_beta c
        \<or> max_iterations c < 1 \<or> probe_duration c \<le> 0 \<or> listen_duration c \<le> 0))
   \<and> ((\<exists>msg. snd (validate h c) = Inl (RuntimeError msg)) \<longleftrightarrow>
       (0 < sprt_alpha c \<and> sprt_alpha c < 1 \<and> 0 < sprt_beta c \<and> sprt_beta c < 1
        \<and> 1 \<le> max_iterations c \<and> 0 < probe_duration c \<and> 0 < listen_duration c
        \<and> legal_check c \<and> \<bar>carrier_freq c - h\<bar> < 1000000 \<and> require_ham_license_confirm c))
   \<and> (snd (validate h c) = Inr () \<longleftrightarrow>
       (0 < sprt_alpha c \<and> sprt_alpha c < 1 \<and> 0 < sprt_beta c \<and> sprt_beta c < 1
        \<and> 1 \<le> max_iterations c \<and> 0 < probe_duration c \<and> 0 < listen_duration c
        \<and> (\<bar>carrier_freq c - h\<bar> < 1000000 \<and> legal_check c \<and> require_ham_license_confirm c) = False))
   \<and> snd (validate h (c\<lparr>baseline_samples := k\<rparr>)) = snd (validate h c)"
proof (intro conjI)
  show "(\<exists>msg. snd (validate h c) = Inl (ValueError msg)) \<longleftrightarrow>
       (sprt_alpha c \<le> 0 \<or> 1 \<le> sprt_alpha c \<or> sprt_beta c \<le> 0 \<or> 1 \<le> sprt_beta c
        \<or> max_iterations c < 1 \<or> probe_duration c \<le> 0 \<or> listen_duration c \<le> 0)"
    by (auto simp: validate_def)
  show "(\<exists>msg. snd (validate h c) = Inl (RuntimeError msg)) \<longleftrightarrow>
       (0 < sprt_alpha c \<and> sprt_alpha c < 1 \<and> 0 < sprt_beta c \<and> sprt_beta c < 1
        \<and> 1 \<le> max_iterations c \<and> 0 < probe_duration c \<and> 0 < listen_duration c
        \<and> legal_check c \<and> \<bar>carrier_freq c - h\<bar> < 1000000 \<and> require_ham_license_confirm c)"
    by (auto simp: validate_def)
  show "snd (validate h c) = Inr () \<longleftrightarrow>
       (0 < sprt_alpha c \<and> sprt_alpha c < 1 \<and> 0 < sprt_beta c \<and> sprt_beta c < 1
        \<and> 1 \<le> max_iterations c \<and> 0 < probe_duration c \<and> 0 < listen_duration c
        \<and> (\<bar>carrier_freq c - h\<bar> < 1000000 \<and> legal_check c \<and> require_ham_license_confirm c) = False)"
    by (auto simp: validate_def)
  show "snd (validate h (c\<lparr>baseline_samples := k\<rparr>)) = snd (validate h c)"
    by (simp add: validate_def)
qed

theorem validate_raises_iff_witness:
  "snd (validate 1420405000
          ((APDConfig_default 1420405000 2000000 20)\<lparr>carrier_freq := 433920000\<rparr>)) = Inr ()
   \<and> (\<exists>msg. snd (validate 1420405000
          ((APDConfig_default 1420405000 2000000 20)\<lparr>sprt_alpha := 1\<rparr>)) = Inl (ValueError msg))
   \<and> (\<exists>msg. snd (validate 1420405000 (APDConfig_default 1420405000 2000000 20))
          = Inl (RuntimeError msg))"
  using validate_raises_iff
          [of 1420405000 "(APDConfig_default 1420405000 2000000 20)\<lparr>carrier_freq := 433920000\<rparr>" 5]
        validate_raises_iff
          [of 1420405000 "(APDConfig_default 1420405000 2000000 20)\<lparr>sprt_alpha := 1\<rparr>" 5]
        validate_raises_iff
          [of 1420405000 "APDConfig_default 1420405000 2000000 20" 5]
  by (simp add: APDConfig_default_def)

section \<open>Properties of the probe library\<close>

lemma normalise_channel_zeros: "normalise_channel (replicate n 0) = replicate n 0"
proof -
  have "fold (\<lambda>x m. max \<bar>x\<bar> m) (replicate n (0::real)) 0 = 0"
    by (induction n) simp_all
  then show ?thesis by (simp add: normalise_channel_def)
qed

lemma to_iq_int8_zeros: "to_iq_int8 (replicate n 0) (replicate n 0) = replicate (2 * n) 0"
proof -
  have "concat (map (\<lambda>(a, b). [quantise a, quantise b]) (zip (replicate n 0) (replicate n 0)))
          = replicate (2 * n) 0"
    by (induction n) (simp_all add: quantise_def)
  then show ?thesis by (simp add: to_iq_int8_def normalise_channel_zeros)
qed

lemma silence_nonneg:
  "0 \<le> real_of_int rate * duration \<Longrightarrow>
   silence rate duration ps = Inr (replicate (2 * nat \<lfloor>real_of_int rate * duration\<rfloor>) 0)"
  by (simp add: silence_def py_int_def np_zeros_def to_iq_int8_zeros)

text \<open>
  Claim C6. A probe whose kind is not a key of \<open>_probe_generators\<close> makes
  \<open>generate_iq\<close> raise \<open>ValueError\<close>; \<open>CUSTOM\<close>, the kind that \<open>custom_probe\<close> gives, is
  the only such kind. The nine kinds of the standard library are keys, each mapped to
  one generator, and different kinds are mapped to different generators; for them
  \<open>generate_iq\<close> is the call of that generator.
\<close>

theorem generate_iq_unknown_kind:
  "(probe_generators (ptype probe) = None \<longrightarrow>
      generate_iq waveforms rate probe duration = Inl (ValueError ''Unknown probe type: {probe.type}''))
   \<and> generate_iq waveforms rate (custom_probe waveform_fn d descr score) duration
        = Inl (ValueError ''Unknown probe type: {probe.type}'')
   \<and> (probe_generators t = None \<longleftrightarrow> t = CUSTOM)
   \<and> map (\<lambda>p. (ptype p, probe_generators (ptype p))) (get_standard_library primes) =
        [(HYDROGEN_PULSE, Some gen_hydrogen_pulse), (SCHUMANN_AM, Some gen_schumann_am),
         (FREQUENCY_SWEEP, Some gen_frequency_sweep), (PRIME_SEQUENCE, Some gen_prime_sequence),
         (FIBONACCI_SEQUENCE, Some gen_fibonacci_sequence), (GOLDEN_RATIO, Some gen_golden_ratio),
         (CHIRP_UP, Some gen_chirp_up), (CHIRP_DOWN, Some gen_chirp_down),
         (SILENCE, Some gen_silence)]
   \<and> inj probe_generators
   \<and> (probe_generators (ptype probe) = Some g \<longrightarrow>
        generate_iq waveforms rate probe duration
          = run_generator waveforms rate g duration (parameters probe))"
proof (intro conjI impI)
  show "generate_iq waveforms rate (custom_probe waveform_fn d descr score) duration
        = Inl (ValueError ''Unknown probe type: {probe.type}'')"
    by (simp add: generate_iq_def custom_probe_def probe_generators_def)
  show "probe_generators t = None \<longleftrightarrow> t = CUSTOM"
    by (cases t) (simp_all add: probe_generators_def)
  show "map (\<lambda>p. (ptype p, probe_generators (ptype p))) (get_standard_library primes) =
        [(HYDROGEN_PULSE, Some gen_hydrogen_pulse), (SCHUMANN_AM, Some gen_schumann_am),
         (FREQUENCY_SWEEP, Some gen_frequency_sweep), (PRIME_SEQUENCE, Some gen_prime_sequence),
         (FIBONACCI_SEQUENCE, Some gen_fibonacci_sequence), (GOLDEN_RATIO, Some gen_golden_ratio),
         (CHIRP_UP, Some gen_chirp_up), (CHIRP_DOWN, Some gen_chirp_down),
         (SILENCE, Some gen_silence)]"
    by (simp add: get_standard_library_def probe_generators_def)
  show "inj probe_generators"
  proof (rule injI)
    fix a b assume "probe_generators a = probe_generators b"
    then show "a = b"
      by (cases a; cases b) (simp_all add: probe_generators_def)
  qed
next
  assume "probe_generators (ptype probe) = None"
  then show "generate_iq waveforms rate probe duration = Inl (ValueError ''Unknown probe type: {probe.type}'')"
    by (simp add: generate_iq_def)
next
  assume "probe_generators (ptype probe) = Some g"
  then show "generate_iq waveforms rate probe duration
          = run_generator waveforms rate g duration (parameters probe)"
    by (simp add: generate_iq_def)
qed

theorem generate_iq_unknown_kind_witness:
  "probe_generators (ptype \<lparr>ptype = CUSTOM, parameters = [], description = ''x'', kl_score = 1\<rparr>) = None
   \<and> generate_iq (\<lambda>g r d ps. Inr []) 2000000
        \<lparr>ptype = CUSTOM, parameters = [], description = ''x'', kl_score = 1\<rparr> 5
       = Inl (ValueError ''Unknown probe type: {probe.type}'')
   \<and> probe_generators (ptype \<lparr>ptype = CHIRP_UP, parameters = [], description = ''y'', kl_score = 1\<rparr>)
       = Some gen_chirp_up
   \<and> generate_iq (\<lambda>g r d ps. Inr []) 2000000
        \<lparr>ptype = CHIRP_UP, parameters = [], description = ''y'', kl_score = 1\<rparr> 5
       = Inr []"
  using generate_iq_unknown_kind
          [of "\<lparr>ptype = CUSTOM, parameters = [], description = ''x'', kl_score = 1\<rparr>"
              "\<lambda>g r d ps. Inr []" 2000000 5 "\<lambda>d r. ([], [])" 0 "''x''" 1 CUSTOM "[]" gen_silence]
        generate_iq_unknown_kind
          [of "\<lparr>ptype = CHIRP_UP, parameters = [], description = ''y'', kl_score = 1\<rparr>"
              "\<lambda>g r d ps. Inr []" 2000000 5 "\<lambda>d r. ([], [])" 0 "''x''" 1 CUSTOM "[]" gen_chirp_up]
  by (simp add: probe_generators_def run_generator_def)

text \<open>
  Claim C9. Rendering the silence probe of the standard library for 1.0 s at
  2,000,000 samples per second gives \<open>2 * round (1.0 * 2000000) = 4000000\<close> interleaved
  samples, every one of them zero.
\<close>

theorem silence_probe_render:
  "generate_iq waveforms 2000000 (last (get_standard_library primes)) 1
     = Inr (replicate (2 * nat (round (1 * 2000000 :: real))) 0)
   \<and> 2 * nat (round (1 * 2000000 :: real)) = 4000000
   \<and> ptype (last (get_standard_library primes)) = SILENCE"
proof -
  have "silence 2000000 1 ps = Inr (replicate 4000000 0)" for ps
    using silence_nonneg [of 2000000 1 ps] by simp
  then show ?thesis
    by (simp add: generate_iq_def get_standard_library_def probe_generators_def
          run_generator_def)
qed

section \<open>Properties of \<open>analyze\<close>\<close>

lemma evens_odds_length: "even (length xs) \<Longrightarrow> length (evens xs) = length (odds xs)"
  by (induction xs rule: evens.induct) simp_all

lemma np_add_iq_same_length:
  "length is = length qs \<Longrightarrow> np_add_iq is qs = Inr (map (\<lambda>(a, b). Complex a b) (zip is qs))"
  by (simp add: np_add_iq_def)

lemma to_complex_raw_interleaved:
  "interleaved buf \<Longrightarrow> \<exists>cs. to_complex_raw buf = Inr cs"
  by (cases buf) (simp_all add: interleaved_def to_complex_raw_def np_add_iq_same_length
                    evens_odds_length)

lemma compute_correlation_returns:
  assumes "interleaved r" "interleaved p"
  shows "\<exists>c. compute_correlation r p = Inr c"
proof -
  obtain rc where rc: "to_complex_raw r = Inr rc"
    using to_complex_raw_interleaved [OF assms(1)] by blast
  obtain pc where pc: "to_complex_raw p = Inr pc"
    using to_complex_raw_interleaved [OF assms(2)] by blast
  show ?thesis
    by (simp add: compute_correlation_def rc pc Let_def)
qed

lemma find_peak_returns:
  "psd \<noteq> [] \<Longrightarrow> sr az \<noteq> 0 \<Longrightarrow> \<exists>pf pp. find_peak az psd = Inr (pf, pp)"
  by (cases psd) (simp_all add: find_peak_def np_argmax_def Let_def)

lemma analyze_returns:
  assumes psd: "compute_power_spectrum welch az r = Inr psd" "psd \<noteq> []"
      and sr: "sr az \<noteq> 0"
      and probe: "probe = None \<or> (\<exists>p. probe = Some p \<and> interleaved r \<and> interleaved p)"
  shows "\<exists>m. fst (analyze welch az pid r probe sv) = Inr m"
proof -
  obtain pf pp where peak: "find_peak az psd = Inr (pf, pp)"
    using find_peak_returns [OF psd(2) sr] by blast
  have "\<exists>c. (case probe of None \<Rightarrow> Inr (Fin 0) | Some p \<Rightarrow> compute_correlation r p) = Inr c"
    using probe compute_correlation_returns by (cases probe) auto
  then obtain c where
    c: "(case probe of None \<Rightarrow> Inr (Fin 0) | Some p \<Rightarrow> compute_correlation r p) = Inr c"
    by blast
  show ?thesis
    by (simp add: analyze_def psd(1) peak c Let_def split: option.split prod.split)
qed

lemma analyze_metrics:
  assumes "fst (analyze welch az pid r probe sv) = Inr m"
  shows "\<exists>psd. compute_power_spectrum welch az r = Inr psd \<and> power_mean m = np_mean psd
     \<and> (case (baseline_mean az, baseline_std az) of
          (Some bmean, Some bstd) \<Rightarrow>
             anomaly_score m = fdiv (fsub (np_mean psd) bmean) (fadd bstd (Fin (1 / 10 ^ 12)))
           \<and> is_anomaly m = fgt (anomaly_score m) (Fin (anomaly_threshold az))
           \<and> snd (analyze welch az pid r probe sv) = az
        | _ \<Rightarrow> anomaly_score m = Fin 0 \<and> is_anomaly m = False
           \<and> snd (analyze welch az pid r probe sv)
               = log_to az WARNING ''No baseline set. Anomaly detection disabled.'' [])"
  using assms
  by (auto simp: analyze_def Let_def split: sum.splits option.splits prod.splits)

text \<open>
  Claim C4. On an analyzer whose baseline mean or standard deviation is unset, the
  metrics that \<open>analyze\<close> returns have \<open>anomaly_score = 0.0\<close> and \<open>is_anomaly = False\<close>
  whatever the spectrum of the input is, and the call appends one record of level
  WARNING to the analyzer's log. \<open>analyze\<close> does return metrics whenever the spectrum
  estimate is a non-empty vector, the sample rate is not 0 and, where a reference probe
  is given, both buffers are interleaved.
\<close>

theorem analyze_without_baseline:
  assumes "baseline_mean az = None \<or> baseline_std az = None"
  shows "(\<forall>m. fst (analyze welch az pid r probe sv) = Inr m \<longrightarrow>
            anomaly_score m = Fin 0 \<and> is_anomaly m = False
          \<and> logger (snd (analyze welch az pid r probe sv))
              = logger az @ [(WARNING, ''No baseline set. Anomaly detection disabled.'', [])])
       \<and> (compute_power_spectrum welch az r = Inr psd \<and> psd \<noteq> [] \<and> sr az \<noteq> 0
            \<and> (probe = None \<or> (\<exists>p. probe = Some p \<and> interleaved r \<and> interleaved p)) \<longrightarrow>
          (\<exists>m. fst (analyze welch az pid r probe sv) = Inr m))"
proof (intro conjI allI impI)
  fix m assume m: "fst (analyze welch az pid r probe sv) = Inr m"
  from analyze_metrics [OF m] assms
  have "anomaly_score m = Fin 0 \<and> is_anomaly m = False
     \<and> snd (analyze welch az pid r probe sv)
               = log_to az WARNING ''No baseline set. Anomaly detection disabled.'' []"
    by (auto split: option.splits)
  then show "anomaly_score m = Fin 0" "is_anomaly m = False"
    "logger (snd (analyze welch az pid r probe sv))
              = logger az @ [(WARNING, ''No baseline set. Anomaly detection disabled.'', [])]"
    by (simp_all add: log_to_def)
next
  assume "compute_power_spectrum welch az r = Inr psd \<and> psd \<noteq> [] \<and> sr az \<noteq> 0
            \<and> (probe = None \<or> (\<exists>p. probe = Some p \<and> interleaved r \<and> interleaved p))"
  then show "\<exists>m. fst (analyze welch az pid r probe sv) = Inr m"
    using analyze_returns [of welch az r psd probe pid sv] by blast
qed

theorem analyze_without_baseline_witness:
  "baseline_mean (ResponseAnalyzer_init 2000000 3 None None) = None
   \<and> (\<exists>m. fst (analyze (\<lambda>cs fs n. Inr [5, 7]) (ResponseAnalyzer_init 2000000 3 None None) 0
                 (Int8 [100, 0, 100, 0]) (Some (Int8 [1, 2, 3, 4])) False) = Inr m
          \<and> anomaly_score m = Fin 0 \<and> is_anomaly m = False)
   \<and> logger (snd (analyze (\<lambda>cs fs n. Inr [5, 7]) (ResponseAnalyzer_init 2000000 3 None None) 0
                 (Int8 [100, 0, 100, 0]) (Some (Int8 [1, 2, 3, 4])) False))
       = [(WARNING, ''No baseline set. Anomaly detection disabled.'', [])]"
proof -
  let ?az = "ResponseAnalyzer_init 2000000 3 None None"
  let ?w = "(\<lambda>cs fs n. Inr [5, 7]) :: welch_fn"
  have nb: "baseline_mean ?az = None \<or> baseline_std ?az = None"
    by (simp add: ResponseAnalyzer_init_def)
  have pre: "compute_power_spectrum ?w ?az (Int8 [100, 0, 100, 0]) = Inr [5, 7]
      \<and> [5, 7 :: real] \<noteq> [] \<and> sr ?az \<noteq> 0
      \<and> (Some (Int8 [1, 2, 3, 4]) = None
          \<or> (\<exists>p. Some (Int8 [1, 2, 3, 4]) = Some p \<and> interleaved (Int8 [100, 0, 100, 0])
                  \<and> interleaved p))"
    by (simp add: compute_power_spectrum_def to_complex_scaled_def np_add_iq_def
          ResponseAnalyzer_init_def interleaved_def)
  from analyze_without_baseline [OF nb, of ?w 0 "Int8 [100, 0, 100, 0]"
         "Some (Int8 [1, 2, 3, 4])" False "[5, 7]"] pre
  show ?thesis
    by (auto simp: ResponseAnalyzer_init_def)
qed

text \<open>
  Claim C10. With both baseline components set, the metrics that \<open>analyze\<close> returns
  have \<open>anomaly_score = (power_mean - baseline_mean) / (baseline_std + 1e-12)\<close> and
  \<open>is_anomaly\<close> true exactly when \<open>anomaly_score > anomaly_threshold\<close>, a strict
  comparison: a score equal to the threshold gives \<open>is_anomaly = False\<close>.
\<close>

theorem analyze_anomaly_strict:
  assumes "baseline_mean az = Some bmean" "baseline_std az = Some bstd"
      and "fst (analyze welch az pid r probe sv) = Inr m"
  shows "anomaly_score m = fdiv (fsub (power_mean m) bmean) (fadd bstd (Fin (1 / 10 ^ 12)))
       \<and> is_anomaly m = fgt (anomaly_score m) (Fin (anomaly_threshold az))
       \<and> (\<forall>x. anomaly_score m = Fin x \<longrightarrow> (is_anomaly m \<longleftrightarrow> x > anomaly_threshold az))
       \<and> (anomaly_score m = Fin (anomaly_threshold az) \<longrightarrow> is_anomaly m = False)"
proof -
  from analyze_metrics [OF assms(3)] assms(1,2)
  have a: "anomaly_score m = fdiv (fsub (power_mean m) bmean) (fadd bstd (Fin (1 / 10 ^ 12)))"
   and b: "is_anomaly m = fgt (anomaly_score m) (Fin (anomaly_threshold az))"
    by auto
  show ?thesis using a b by simp
qed

theorem analyze_anomaly_strict_witness:
  "\<exists>m. fst (analyze (\<lambda>cs fs n. Inr [3])
              (ResponseAnalyzer_init 2000000 3 (Some (Fin 0)) (Some (Fin (1 - 1 / 10 ^ 12)))) 0
              (Int8 [100, 0, 100, 0]) None False) = Inr m
     \<and> anomaly_score m = Fin 3 \<and> is_anomaly m = False"
proof -
  let ?az = "ResponseAnalyzer_init 2000000 3 (Some (Fin 0)) (Some (Fin (1 - 1 / 10 ^ 12)))"
  let ?w = "(\<lambda>cs fs n. Inr [3]) :: welch_fn"
  have psd: "compute_power_spectrum ?w ?az (Int8 [100, 0, 100, 0]) = Inr [3]"
    by (simp add: compute_power_spectrum_def to_complex_scaled_def np_add_iq_def)
  have "\<exists>m. fst (analyze ?w ?az 0 (Int8 [100, 0, 100, 0]) None False) = Inr m"
    by (rule analyze_returns [OF psd]) (simp_all add: ResponseAnalyzer_init_def)
  then obtain m where m: "fst (analyze ?w ?az 0 (Int8 [100, 0, 100, 0]) None False) = Inr m"
    by blast
  have pm: "power_mean m = Fin 3"
    using analyze_metrics [OF m] psd by (auto simp: np_mean_def mean_def)
  have bm: "baseline_mean ?az = Some (Fin 0)" and bs: "baseline_std ?az = Some (Fin (1 - 1 / 10 ^ 12))"
    by (simp_all add: ResponseAnalyzer_init_def)
  from analyze_anomaly_strict [OF bm bs m]
  have "anomaly_score m = Fin 3 \<and> is_anomaly m = False"
    by (simp add: pm fsub_def fadd_def ResponseAnalyzer_init_def)
  with m show ?thesis by blast
qed

section \<open>Properties of the correlation\<close>

lemma sum_sq_nonneg: "0 \<le> (\<Sum>x\<leftarrow>xs. (x - c)\<^sup>2)" for c :: real
  by (induction xs) simp_all

lemma np_std_nonempty:
  "xs \<noteq> [] \<Longrightarrow> np_std xs = Fin (sqrt ((\<Sum>x\<leftarrow>xs. (x - mean xs)\<^sup>2) / real (length xs)))"
  by (simp add: np_std_def mean_def [of "map f xs" for f] o_def)

lemma std_large_sum_pos:
  assumes "xs \<noteq> []" "\<not> flt (np_std xs) (Fin (1 / 10 ^ 12))"
  shows "0 < (\<Sum>x\<leftarrow>xs. (x - mean xs)\<^sup>2)"
proof (rule ccontr)
  assume "\<not> 0 < (\<Sum>x\<leftarrow>xs. (x - mean xs)\<^sup>2)"
  with sum_sq_nonneg [of "mean xs" xs] have "(\<Sum>x\<leftarrow>xs. (x - mean xs)\<^sup>2) = 0" by simp
  then have "np_std xs = Fin 0"
    using assms(1) by (simp add: np_std_nonempty)
  with assms(2) show False by simp
qed

lemma std_large_two_points:
  assumes "xs \<noteq> []" "\<not> flt (np_std xs) (Fin (1 / 10 ^ 12))"
  shows "2 \<le> length xs"
proof (rule ccontr)
  assume "\<not> 2 \<le> length xs"
  with assms(1) obtain x where "xs = [x]"
    by (cases xs) (auto simp: Suc_le_eq)
  then have "(\<Sum>x\<leftarrow>xs. (x - mean xs)\<^sup>2) = 0"
    by (simp add: mean_def)
  with std_large_sum_pos [OF assms] show False by simp
qed

lemma corrcoef_cases:
  "np_corrcoef01 xs ys =
     (if length xs \<le> 1 \<or> (\<Sum>x\<leftarrow>xs. (x - mean xs)\<^sup>2) = 0 \<or> (\<Sum>y\<leftarrow>ys. (y - mean ys)\<^sup>2) = 0
      then NaN
      else Fin ((\<Sum>(x, y)\<leftarrow>zip xs ys. (x - mean xs) * (y - mean ys)) / (real (length xs) - 1)
                 / sqrt ((\<Sum>x\<leftarrow>xs. (x - mean xs)\<^sup>2) / (real (length xs) - 1))
                 / sqrt ((\<Sum>y\<leftarrow>ys. (y - mean ys)\<^sup>2) / (real (length xs) - 1))))"
proof -
  have cxx: "(\<Sum>a\<leftarrow>map (\<lambda>x. x - mean xs) xs. a * a) = (\<Sum>x\<leftarrow>xs. (x - mean xs)\<^sup>2)"
    by (simp add: o_def power2_eq_square)
  have cyy: "(\<Sum>b\<leftarrow>map (\<lambda>y. y - mean ys) ys. b * b) = (\<Sum>y\<leftarrow>ys. (y - mean ys)\<^sup>2)"
    by (simp add: o_def power2_eq_square)
  have cxy: "(\<Sum>(a, b)\<leftarrow>zip (map (\<lambda>x. x - mean xs) xs) (map (\<lambda>y. y - mean ys) ys). a * b)
               = (\<Sum>(x, y)\<leftarrow>zip xs ys. (x - mean xs) * (y - mean ys))"
    by (simp add: zip_map_map o_def split_def)
  show ?thesis
    unfolding np_corrcoef01_def Let_def cxx cyy cxy
    by (cases "length xs \<le> 1") auto
qed

lemma corrcoef_is_pearson:
  assumes n: "2 \<le> length xs"
      and sx: "0 < (\<Sum>x\<leftarrow>xs. (x - mean xs)\<^sup>2)" and sy: "0 < (\<Sum>y\<leftarrow>ys. (y - mean ys)\<^sup>2)"
  shows "np_corrcoef01 xs ys = Fin (pearson_spec xs ys)"
proof -
  define f where "f = real (length xs) - 1"
  define A where "A = (\<Sum>x\<leftarrow>xs. (x - mean xs)\<^sup>2)"
  define B where "B = (\<Sum>y\<leftarrow>ys. (y - mean ys)\<^sup>2)"
  define C where "C = (\<Sum>(x, y)\<leftarrow>zip xs ys. (x - mean xs) * (y - mean ys))"
  have f: "0 < f" using n by (simp add: f_def)
  have A: "0 < A" and B: "0 < B" using sx sy by (simp_all add: A_def B_def)
  have "np_corrcoef01 xs ys = Fin (C / f / sqrt (A / f) / sqrt (B / f))"
    using n A B unfolding corrcoef_cases [of xs ys] A_def B_def C_def f_def by simp
  also have "C / f / sqrt (A / f) / sqrt (B / f) = C / (sqrt A * sqrt B)"
  proof -
    have ff: "sqrt f * sqrt f = f" using f by simp
    have pos: "0 < sqrt f" "0 < sqrt A" "0 < sqrt B" using f A B by simp_all
    have "C / f / sqrt (A / f) / sqrt (B / f) = C * (sqrt f * sqrt f) / (f * (sqrt A * sqrt B))"
      using pos f by (simp add: real_sqrt_divide field_simps)
    also have "\<dots> = C / (sqrt A * sqrt B)"
      using f by (simp add: ff)
    finally show ?thesis .
  qed
  finally show ?thesis
    by (simp add: pearson_spec_def A_def B_def C_def)
qed

lemma corrcoef_fin_is_pearson:
  assumes c: "np_corrcoef01 xs ys = Fin c"
  shows "c = pearson_spec xs ys"
proof -
  from c have n: "2 \<le> length xs"
    and a: "(\<Sum>x\<leftarrow>xs. (x - mean xs)\<^sup>2) \<noteq> 0" and b: "(\<Sum>y\<leftarrow>ys. (y - mean ys)\<^sup>2) \<noteq> 0"
    unfolding corrcoef_cases [of xs ys] by (auto split: if_splits)
  have sx: "0 < (\<Sum>x\<leftarrow>xs. (x - mean xs)\<^sup>2)"
    using a sum_sq_nonneg [of "mean xs" xs] by simp
  have sy: "0 < (\<Sum>y\<leftarrow>ys. (y - mean ys)\<^sup>2)"
    using b sum_sq_nonneg [of "mean ys" ys] by simp
  from corrcoef_is_pearson [OF n sx sy] c show ?thesis by simp
qed

text \<open>
  Claim C8. Where both buffers decode to complex sequences \<open>rc\<close> and \<open>pc\<close>,
  \<open>_compute_correlation\<close> cuts both to the shorter length, takes magnitudes, and
  returns 0 when the standard deviation of either magnitude sequence is below
  \<open>1e-12\<close> or when \<open>np.corrcoef\<close> gives \<open>nan\<close> (as it does on empty sequences), and the
  Pearson correlation of the two magnitude sequences otherwise. The result is never
  \<open>nan\<close>. With non-empty sequences and both standard deviations at least \<open>1e-12\<close> the
  result is the Pearson correlation.
\<close>

theorem compute_correlation_spec:
  assumes r: "to_complex_raw r = Inr rc" and p: "to_complex_raw p = Inr pc"
  shows "let n = min (length rc) (length pc);
             rm = map cmod (take n rc);
             pm = map cmod (take n pc);
             v = compute_correlation r p
         in v = Inr (if flt (np_std rm) (Fin (1 / 10 ^ 12)) \<or> flt (np_std pm) (Fin (1 / 10 ^ 12))
                        \<or> isnan (np_corrcoef01 rm pm)
                     then Fin 0 else Fin (pearson_spec rm pm))
          \<and> (\<exists>x. v = Inr (Fin x))
          \<and> (n = 0 \<longrightarrow> v = Inr (Fin 0))
          \<and> (n \<noteq> 0 \<and> \<not> flt (np_std rm) (Fin (1 / 10 ^ 12))
                \<and> \<not> flt (np_std pm) (Fin (1 / 10 ^ 12)) \<longrightarrow>
              v = Inr (Fin (pearson_spec rm pm)))"
proof -
  define n where "n = min (length rc) (length pc)"
  define rm where "rm = map cmod (take n rc)"
  define pm where "pm = map cmod (take n pc)"
  define v where "v = compute_correlation r p"
  have len: "length rm = n" "length pm = n"
    by (simp_all add: rm_def pm_def n_def)
  have v: "v = (if flt (np_std rm) (Fin (1 / 10 ^ 12)) \<or> flt (np_std pm) (Fin (1 / 10 ^ 12))
                then Inr (Fin 0)
                else Inr (if \<not> isnan (np_corrcoef01 rm pm) then np_corrcoef01 rm pm else Fin 0))"
    by (simp add: v_def compute_correlation_def r p Let_def rm_def pm_def n_def)
  have main: "v = Inr (if flt (np_std rm) (Fin (1 / 10 ^ 12)) \<or> flt (np_std pm) (Fin (1 / 10 ^ 12))
                        \<or> isnan (np_corrcoef01 rm pm)
                     then Fin 0 else Fin (pearson_spec rm pm))"
  proof (cases "np_corrcoef01 rm pm")
    case (Fin c)
    then show ?thesis using corrcoef_fin_is_pearson [OF Fin] by (simp add: v)
  next
    case NaN
    then show ?thesis by (simp add: v)
  qed
  have fin: "\<exists>x. v = Inr (Fin x)"
    unfolding main by auto
  have empty: "v = Inr (Fin 0)" if "n = 0"
  proof -
    from that have "rm = []" using len by simp
    then show ?thesis by (simp add: v np_corrcoef01_def)
  qed
  have large: "v = Inr (Fin (pearson_spec rm pm))"
    if "n \<noteq> 0 \<and> \<not> flt (np_std rm) (Fin (1 / 10 ^ 12)) \<and> \<not> flt (np_std pm) (Fin (1 / 10 ^ 12))"
  proof -
    from that len have ne: "rm \<noteq> []" "pm \<noteq> []" by auto
    from that have sr: "\<not> flt (np_std rm) (Fin (1 / 10 ^ 12))"
      and sp: "\<not> flt (np_std pm) (Fin (1 / 10 ^ 12))" by simp_all
    have "np_corrcoef01 rm pm = Fin (pearson_spec rm pm)"
      by (rule corrcoef_is_pearson [OF std_large_two_points [OF ne(1) sr]
                 std_large_sum_pos [OF ne(1) sr] std_large_sum_pos [OF ne(2) sp]])
    then show ?thesis using sr sp by (simp add: v)
  qed
  show ?thesis
    unfolding Let_def n_def [symmetric] rm_def [symmetric] pm_def [symmetric] v_def [symmetric]
    using main fin empty large by blast
qed

theorem compute_correlation_spec_witness:
  "to_complex_raw (Int8 [3, 0, 0, 0]) = Inr [Complex 3 0, Complex 0 0]
   \<and> to_complex_raw (Int8 [0, 0, 5, 0, 1, 1]) = Inr [Complex 0 0, Complex 5 0, Complex 1 1]
   \<and> (\<exists>x. compute_correlation (Int8 [3, 0, 0, 0]) (Int8 [0, 0, 5, 0, 1, 1]) = Inr (Fin x))
   \<and> to_complex_raw (Int8 []) = Inr []
   \<and> compute_correlation (Int8 []) (Int8 [0, 0, 5, 0, 1, 1]) = Inr (Fin 0)"
proof -
  have r: "to_complex_raw (Int8 [3, 0, 0, 0]) = Inr [Complex 3 0, Complex 0 0]"
    by (simp add: to_complex_raw_def np_add_iq_def)
  have p: "to_complex_raw (Int8 [0, 0, 5, 0, 1, 1])
             = Inr [Complex 0 0, Complex 5 0, Complex 1 1]"
    by (simp add: to_complex_raw_def np_add_iq_def)
  have e: "to_complex_raw (Int8 []) = Inr []"
    by (simp add: to_complex_raw_def np_add_iq_def)
  have "\<exists>x. compute_correlation (Int8 [3, 0, 0, 0]) (Int8 [0, 0, 5, 0, 1, 1]) = Inr (Fin x)"
    using compute_correlation_spec [OF r p] unfolding Let_def by blast
  moreover have "compute_correlation (Int8 []) (Int8 [0, 0, 5, 0, 1, 1]) = Inr (Fin 0)"
  proof -
    have "min (length ([] :: complex list)) (length [Complex 0 0, Complex 5 0, Complex 1 1]) = 0"
      by simp
    with compute_correlation_spec [OF e p] show ?thesis
      unfolding Let_def by blast
  qed
  ultimately show ?thesis using r p e by blast
qed

section \<open>Properties of the calibration\<close>








section \<open>Properties of Wald's thresholds\<close>

text \<open>
  Claim C7, as stated: for every \<open>alpha\<close> and \<open>beta\<close> in the open interval (0,1),
  \<open>A > 0 > B\<close>. It fails at \<open>alpha = beta = 3/5\<close>, where \<open>A = ln (2/3)\<close> is negative.
\<close>

theorem wald_thresholds_counterexample:
  "0 < (3/5 :: real) \<and> (3/5 :: real) < 1 \<and> \<not> (0 < wald_upper (3/5) (3/5) \<and> wald_lower (3/5) (3/5) < 0)"
  by (simp add: wald_upper_def wald_lower_def)

text \<open>
  Claim C7, amended: for \<open>alpha\<close> and \<open>beta\<close> in (0,1), \<open>A > 0 > B\<close> holds exactly
  when \<open>alpha + beta < 1\<close>.
\<close>

theorem wald_thresholds_ordered:
  assumes "0 < alpha" "alpha < 1" "0 < beta" "beta < 1"
  shows "(0 < wald_upper alpha beta \<and> wald_lower alpha beta < 0) \<longleftrightarrow> alpha + beta < 1"
proof -
  have up: "0 < wald_upper alpha beta \<longleftrightarrow> alpha + beta < 1"
  proof -
    have "0 < (1 - beta) / alpha" using assms by simp
    then have "0 < wald_upper alpha beta \<longleftrightarrow> 1 < (1 - beta) / alpha"
      by (simp add: wald_upper_def)
    also have "\<dots> \<longleftrightarrow> alpha < 1 - beta" using assms by (simp add: field_simps)
    finally show ?thesis by auto
  qed
  have lo: "wald_lower alpha beta < 0 \<longleftrightarrow> alpha + beta < 1"
  proof -
    have "0 < beta / (1 - alpha)" using assms by simp
    then have "wald_lower alpha beta < 0 \<longleftrightarrow> beta / (1 - alpha) < 1"
      by (simp add: wald_lower_def)
    also have "\<dots> \<longleftrightarrow> beta < 1 - alpha" using assms by (simp add: field_simps)
    finally show ?thesis by auto
  qed
  show ?thesis
    using up lo by blast
qed

theorem wald_thresholds_ordered_witness:
  "0 < (1/100 :: real) \<and> (1/100 :: real) < 1
   \<and> 0 < wald_upper (1/100) (1/100) \<and> wald_lower (1/100) (1/100) < 0"
  using wald_thresholds_ordered [of "1/100" "1/100"] by simp

end
